theory Spec2Isabelle
  imports Main "HOL-Library.AList" "HOL-Library.Sublist"
begin

section \<open>Python values and exceptions\<close>

text \<open>
  The worker of \<^verbatim>\<open>disco.worker\<close> is a Python 2 dictionary whose entries are
  arbitrary Python objects. The embedding keeps the kinds of value that the code
  inspects: \<^verbatim>\<open>None\<close>, booleans, integers, strings, function references
  (by name), and the three containers. Dictionaries nested in values are association
  lists.
\<close>

datatype pyval =
    PNone
  | PBool bool
  | PInt int
  | PStr string
  | PFun string
  | PTuple "pyval list"
  | PList "pyval list"
  | PDict "(string \<times> pyval) list"

text \<open>Truth value testing, as \<^verbatim>\<open>bool(x)\<close>, \<^verbatim>\<open>if x\<close> and \<^verbatim>\<open>x or y\<close> do it.\<close>

fun truthy :: "pyval \<Rightarrow> bool" where
  "truthy PNone = False"
| "truthy (PBool b) = b"
| "truthy (PInt n) = (n \<noteq> 0)"
| "truthy (PStr s) = (s \<noteq> [])"
| "truthy (PFun f) = True"
| "truthy (PTuple xs) = (xs \<noteq> [])"
| "truthy (PList xs) = (xs \<noteq> [])"
| "truthy (PDict kvs) = (kvs \<noteq> [])"

definition py_or :: "pyval \<Rightarrow> pyval \<Rightarrow> pyval" where
  "py_or a b = (if truthy a then a else b)"

text \<open>
  The exception classes the code names or can meet. \<^verbatim>\<open>IOError\<close> and
  \<^verbatim>\<open>OSError\<close> are subclasses of \<^verbatim>\<open>EnvironmentError\<close>;
  \<^verbatim>\<open>SystemExit\<close> and \<^verbatim>\<open>KeyboardInterrupt\<close> derive from
  \<^verbatim>\<open>BaseException\<close> only (Python 2.5 and later), so that
  \<^verbatim>\<open>except Exception\<close> does not catch them.
\<close>

datatype exn =
    DataError
  | EnvironmentError
  | IOError
  | OSError
  | MemoryError
  | KeyError
  | TypeError
  | ValueError
  | ImportError
  | OtherException string
  | SystemExit
  | KeyboardInterrupt



section \<open>The worker: a dictionary with defaults\<close>

type_synonym pydict = "string \<rightharpoonup> pyval"

record worker =
  worker_module :: string
  worker_items :: pydict

text \<open>\<^verbatim>\<open>Worker.defaults\<close>.\<close>

definition defaults :: pydict where
  "defaults =
     [''map'' \<mapsto> PNone,
      ''merge_partitions'' \<mapsto> PBool False,
      ''reduce'' \<mapsto> PNone,
      ''required_files'' \<mapsto> PDict [],
      ''required_modules'' \<mapsto> PNone,
      ''save'' \<mapsto> PBool False,
      ''scheduler'' \<mapsto> PDict [],
      ''partitions'' \<mapsto> PInt 1,
      ''profile'' \<mapsto> PBool False]"

text \<open>
  \<^verbatim>\<open>Worker.__init__\<close>: the dictionary starts as the defaults and is then updated
  with the keyword arguments. The first argument is the module that defines the class
  (\<^verbatim>\<open>self.__module__\<close>).
\<close>

definition Worker_init :: "string \<Rightarrow> pydict \<Rightarrow> worker" where
  "Worker_init modname kwargs =
     \<lparr>worker_module = modname, worker_items = defaults ++ kwargs\<rparr>"

text \<open>\<^verbatim>\<open>dict.get(key)\<close>: the stored value, or \<^verbatim>\<open>None\<close>.\<close>

definition dict_get :: "pydict \<Rightarrow> string \<Rightarrow> pyval" where
  "dict_get d key = (case d key of Some v \<Rightarrow> v | None \<Rightarrow> PNone)"

section \<open>The job context\<close>

text \<open>
  The code reads \<^verbatim>\<open>job.name\<close> and \<^verbatim>\<open>job.settings\<close>, and asks the job for
  any attribute by name (\<^verbatim>\<open>hasattr\<close>, \<^verbatim>\<open>getattr\<close>). The settings table is a
  dictionary that \<^verbatim>\<open>jobenvs\<close> updates, kept as an association list.
  \<^verbatim>\<open>job_attrs\<close> holds every other attribute the job object exposes.
\<close>

record job =
  job_name :: pyval
  job_settings :: "(string \<times> pyval) list"
  job_attrs :: pydict

definition job_getattr :: "job \<Rightarrow> string \<Rightarrow> pyval option" where
  "job_getattr j key =
     (if key = ''name'' then Some (job_name j)
      else if key = ''settings'' then Some (PDict (job_settings j))
      else job_attrs j key)"

section \<open>Layered lookup\<close>

text \<open>
  \<^verbatim>\<open>Worker.getitem(key, job, **jobargs)\<close>: the call-time arguments first, then an
  attribute of the job, then the worker's own entry through \<^verbatim>\<open>dict.get\<close>.
\<close>

definition getitem :: "worker \<Rightarrow> string \<Rightarrow> job \<Rightarrow> pydict \<Rightarrow> pyval" where
  "getitem self key j jobargs =
     (case jobargs key of
        Some v \<Rightarrow> v
      | None \<Rightarrow>
          (case job_getattr j key of
             Some a \<Rightarrow> a
           | None \<Rightarrow> dict_get (worker_items self) key))"

text \<open>
  A call \<^verbatim>\<open>f(a, b, **jobargs)\<close> is refused with \<^verbatim>\<open>TypeError\<close> when a
  call-time argument has the name of one of the parameters of \<^verbatim>\<open>f\<close>. This is
  how \<^verbatim>\<open>jobdict\<close> and \<^verbatim>\<open>start\<close> call
  \<^verbatim>\<open>self.getitem(key, job, **jobargs)\<close>.
\<close>

definition keyword_clash :: "string list \<Rightarrow> pydict \<Rightarrow> bool" where
  "keyword_clash params jobargs = list_ex (\<lambda>p. jobargs p \<noteq> None) params"

definition call_getitem :: "worker \<Rightarrow> string \<Rightarrow> job \<Rightarrow> pydict \<Rightarrow> exn + pyval" where
  "call_getitem self key j jobargs =
     (if keyword_clash [''self'', ''key'', ''job''] jobargs then Inl TypeError
      else Inr (getitem self key j jobargs))"

text \<open>One statement after another: an exception ends the sequence.\<close>

definition and_then :: "exn + 'a \<Rightarrow> ('a \<Rightarrow> exn + 'b) \<Rightarrow> exn + 'b" where
  "and_then r f = (case r of Inl e \<Rightarrow> Inl e | Inr x \<Rightarrow> f x)"

section \<open>Conversions of the Python library\<close>

text \<open>
  \<^verbatim>\<open>int(x)\<close> in base ten: an integer is itself, a boolean is 0 or 1, a string is
  stripped of surrounding whitespace and read as an optional sign followed by at least
  one decimal digit (\<^verbatim>\<open>ValueError\<close> otherwise); the other values raise
  \<^verbatim>\<open>TypeError\<close>.
\<close>

definition is_space :: "char \<Rightarrow> bool" where
  "is_space c = ((of_char c :: nat) \<in> {32, 9, 10, 11, 12, 13})"

definition is_digit :: "char \<Rightarrow> bool" where
  "is_digit c = (48 \<le> (of_char c :: nat) \<and> (of_char c :: nat) \<le> 57)"

definition strip :: "string \<Rightarrow> string" where
  "strip s = rev (dropWhile is_space (rev (dropWhile is_space s)))"

definition digits_value :: "string \<Rightarrow> int" where
  "digits_value ds = foldl (\<lambda>a c. 10 * a + (int (of_char c) - 48)) 0 ds"

definition unsigned_of_str :: "string \<Rightarrow> exn + int" where
  "unsigned_of_str ds =
     (if ds \<noteq> [] \<and> list_all is_digit ds then Inr (digits_value ds) else Inl ValueError)"

fun signed_of_str :: "string \<Rightarrow> exn + int" where
  "signed_of_str [] = Inl ValueError"
| "signed_of_str (c # cs) =
     (if c = CHR ''-'' then map_sum id uminus (unsigned_of_str cs)
      else if c = CHR ''+'' then unsigned_of_str cs
      else unsigned_of_str (c # cs))"

fun py_int :: "pyval \<Rightarrow> exn + int" where
  "py_int (PInt n) = Inr n"
| "py_int (PBool b) = Inr (if b then 1 else 0)"
| "py_int (PStr s) = signed_of_str (strip s)"
| "py_int v = Inl TypeError"

text \<open>\<^verbatim>\<open>max\<close> of a sequence of integers; the empty sequence raises.\<close>

fun py_max :: "int list \<Rightarrow> exn + int" where
  "py_max [] = Inl ValueError"
| "py_max (n # ns) = Inr (fold max ns n)"

text \<open>\<^verbatim>\<open>sep.join(items)\<close>: every item must be a string.\<close>

fun strs_of :: "pyval list \<Rightarrow> exn + string list" where
  "strs_of [] = Inr []"
| "strs_of (PStr s # vs) = map_sum id (\<lambda>ss. s # ss) (strs_of vs)"
| "strs_of (v # vs) = Inl TypeError"

fun join_strs :: "string \<Rightarrow> string list \<Rightarrow> string" where
  "join_strs sep [] = []"
| "join_strs sep [s] = s"
| "join_strs sep (s # ss) = s @ sep @ join_strs sep ss"

definition py_join :: "string \<Rightarrow> pyval list \<Rightarrow> exn + string" where
  "py_join sep vs = map_sum id (join_strs sep) (strs_of vs)"

text \<open>\<^verbatim>\<open>os.path.join\<close> of two components on a POSIX system.\<close>

definition path_join :: "string \<Rightarrow> string \<Rightarrow> string" where
  "path_join a b =
     (if b \<noteq> [] \<and> hd b = CHR ''/'' then b
      else if a = [] \<or> last a = CHR ''/'' then a @ b
      else a @ ''/'' @ b)"

section \<open>The job descriptor\<close>

text \<open>
  \<^verbatim>\<open>jobdict\<close> imports three helpers of \<^verbatim>\<open>disco.util\<close>, which are parameters
  here: \<^verbatim>\<open>inputlist\<close> resolves the inputs (given the \<^verbatim>\<open>partition\<close> argument and
  the settings), \<^verbatim>\<open>ispartitioned\<close> tells whether the resolved list is partitioned,
  and \<^verbatim>\<open>read_index\<close> enumerates the \<^verbatim>\<open>(id, url)\<close> entries of one input. Each
  may raise.
\<close>

record util =
  inputlist :: "pyval \<Rightarrow> pyval \<Rightarrow> (string \<times> pyval) list \<Rightarrow> exn + pyval list"
  ispartitioned :: "pyval list \<Rightarrow> exn + pyval"
  read_index :: "pyval \<Rightarrow> exn + (pyval \<times> pyval) list"

record job_descriptor =
  jd_input :: "pyval list"
  jd_worker :: string
  jd_map :: bool
  jd_reduce :: bool
  jd_profile :: pyval
  jd_nr_reduces :: pyval
  jd_prefix :: pyval
  jd_scheduler :: pyval
  jd_owner :: pyval

text \<open>The property \<^verbatim>\<open>Worker.bin\<close>.\<close>

definition bin :: "worker \<Rightarrow> string" where
  "bin self =
     path_join ''lib''
       (map (\<lambda>c. if c = CHR ''.'' then CHR ''/'' else c) (worker_module self) @ ''.py'')"

text \<open>
  The generator \<^verbatim>\<open>int(id) for dir in input for id, url in read_index(dir)\<close>, run
  to its end as \<^verbatim>\<open>max\<close> does: the first exception of \<^verbatim>\<open>read_index\<close> or
  \<^verbatim>\<open>int\<close> ends it.
\<close>

fun ints_of :: "(pyval \<times> pyval) list \<Rightarrow> exn + int list" where
  "ints_of [] = Inr []"
| "ints_of ((i, url) # es) =
     (case py_int i of
        Inl e \<Rightarrow> Inl e
      | Inr n \<Rightarrow> (case ints_of es of Inl e \<Rightarrow> Inl e | Inr ns \<Rightarrow> Inr (n # ns)))"

fun partition_ids :: "util \<Rightarrow> pyval list \<Rightarrow> exn + int list" where
  "partition_ids u [] = Inr []"
| "partition_ids u (dir # dirs) =
     (case read_index u dir of
        Inl e \<Rightarrow> Inl e
      | Inr es \<Rightarrow>
          (case ints_of es of
             Inl e \<Rightarrow> Inl e
           | Inr ns \<Rightarrow>
               (case partition_ids u dirs of Inl e \<Rightarrow> Inl e | Inr ms \<Rightarrow> Inr (ns @ ms))))"

text \<open>
  The three-way choice under the comment \<^verbatim>\<open>-- nr_reduces --\<close>, before
  \<^verbatim>\<open>merge_partitions\<close> is looked at.
\<close>

definition nr_reduces_choice ::
  "util \<Rightarrow> worker \<Rightarrow> job \<Rightarrow> pydict \<Rightarrow> bool \<Rightarrow> pyval list \<Rightarrow> exn + pyval" where
  "nr_reduces_choice u self j jobargs has_map inp =
     (if has_map then
        and_then (call_getitem self ''partitions'' j jobargs) (\<lambda>partitions.
        Inr (py_or partitions (PInt 1)))
      else
        and_then (ispartitioned u inp) (\<lambda>p.
        if truthy p then
          and_then (partition_ids u inp) (\<lambda>ns.
          and_then (py_max ns) (\<lambda>m.
          Inr (PInt (1 + m))))
        else Inr (PInt 1)))"

text \<open>
  \<^verbatim>\<open>Worker.jobdict\<close>, statement by statement; the items of the returned
  dictionary are evaluated in the order they are written, the owner last.
\<close>

definition jobdict :: "util \<Rightarrow> worker \<Rightarrow> job \<Rightarrow> pydict \<Rightarrow> exn + job_descriptor" where
  "jobdict u self j jobargs =
     and_then (call_getitem self ''map'' j jobargs) (\<lambda>mp.
     and_then (call_getitem self ''reduce'' j jobargs) (\<lambda>rd.
     and_then (call_getitem self ''input'' j jobargs) (\<lambda>inputs.
     and_then (inputlist u (py_or inputs (PTuple []))
                 (if truthy mp then PNone else PBool False) (job_settings j)) (\<lambda>inp.
     and_then (nr_reduces_choice u self j jobargs (truthy mp) inp) (\<lambda>nr0.
     and_then (call_getitem self ''merge_partitions'' j jobargs) (\<lambda>merge.
     and_then (call_getitem self ''profile'' j jobargs) (\<lambda>profile.
     and_then (call_getitem self ''scheduler'' j jobargs) (\<lambda>scheduler.
     (case map_of (job_settings j) ''DISCO_JOB_OWNER'' of
        None \<Rightarrow> Inl KeyError
      | Some owner \<Rightarrow>
          Inr \<lparr>jd_input = inp,
               jd_worker = bin self,
               jd_map = truthy mp,
               jd_reduce = truthy rd,
               jd_profile = profile,
               jd_nr_reduces = (if truthy merge then PInt 1 else nr0),
               jd_prefix = job_name j,
               jd_scheduler = scheduler,
               jd_owner = owner\<rparr>)))))))))"

text \<open>
  The rule for \<^verbatim>\<open>nr_reduces\<close> in the words of the specification, to compare
  \<^verbatim>\<open>jobdict\<close> with: the arguments are whether a map is present, the resolved
  \<^verbatim>\<open>partitions\<close> value, whether the input list is partitioned, the greatest
  partition id enumerated, and the resolved \<^verbatim>\<open>merge_partitions\<close> flag.
\<close>

definition nr_reduces_spec :: "bool \<Rightarrow> pyval \<Rightarrow> bool \<Rightarrow> int \<Rightarrow> bool \<Rightarrow> pyval" where
  "nr_reduces_spec has_map partitions partitioned max_id merge =
     (let r = (if has_map then (if truthy partitions then partitions else PInt 1)
               else if partitioned then PInt (1 + max_id)
               else PInt 1)
      in if merge then PInt 1 else r)"

text \<open>
  The partition ids that the index entries of the inputs enumerate, and whether the
  helper calls an input list partitioned, both read off the helpers' results.
\<close>

definition entry_ids :: "util \<Rightarrow> pyval \<Rightarrow> int list" where
  "entry_ids u dir =
     (case read_index u dir of
        Inl e \<Rightarrow> []
      | Inr es \<Rightarrow> concat (map (\<lambda>(i, url). case py_int i of Inl e \<Rightarrow> [] | Inr n \<Rightarrow> [n]) es))"

definition enumerated_ids :: "util \<Rightarrow> pyval list \<Rightarrow> int list" where
  "enumerated_ids u inp = concat (map (entry_ids u) inp)"

definition is_partitioned :: "util \<Rightarrow> pyval list \<Rightarrow> bool" where
  "is_partitioned u inp = (case ispartitioned u inp of Inl e \<Rightarrow> False | Inr p \<Rightarrow> truthy p)"

text \<open>
  Every index of the inputs can be read and every id in it converts to an integer.
\<close>

definition index_readable :: "util \<Rightarrow> pyval list \<Rightarrow> bool" where
  "index_readable u inp =
     list_all (\<lambda>dir. case read_index u dir of
                       Inl e \<Rightarrow> False
                     | Inr es \<Rightarrow>
                         list_all (\<lambda>(i, url). case py_int i of Inl e \<Rightarrow> False | Inr n \<Rightarrow> True)
                           es) inp"



section \<open>The job environment\<close>

text \<open>
  \<^verbatim>\<open>jobenvs\<close> binds \<^verbatim>\<open>settings\<close> to the job's own settings object, assigns
  three of its items, and returns its \<^verbatim>\<open>env\<close> property, which is a parameter
  here (the settings class is outside this module). The job is returned with the
  table as the assignments leave it; when \<^verbatim>\<open>join\<close> raises, the first two
  assignments have been made.
\<close>

definition dict_get_default :: "(string \<times> pyval) list \<Rightarrow> string \<Rightarrow> pyval \<Rightarrow> pyval" where
  "dict_get_default d key dflt = (case map_of d key of Some v \<Rightarrow> v | None \<Rightarrow> dflt)"

definition jobenvs ::
  "((string \<times> pyval) list \<Rightarrow> 'e) \<Rightarrow> job \<Rightarrow> pydict \<Rightarrow> (exn + 'e) \<times> job" where
  "jobenvs env j jobargs =
     (let s1 = AList.update ''LC_ALL'' (PStr ''C'') (job_settings j);
          s2 = AList.update ''LD_LIBRARY_PATH'' (PStr ''lib'') s1
      in case py_join '':'' [dict_get_default s2 ''PYTHONPATH'' (PStr []), PStr ''lib''] of
           Inl e \<Rightarrow> (Inl e, j\<lparr>job_settings := s2\<rparr>)
         | Inr p \<Rightarrow>
             (let s3 = AList.update ''PYTHONPATH'' (PStr p) s2
              in (Inr (env s3), j\<lparr>job_settings := s3\<rparr>)))"

text \<open>Reading one variable of a returned environment, when one was returned.\<close>

definition env_var :: "exn + ((string \<times> pyval) list) \<Rightarrow> string \<Rightarrow> pyval option" where
  "env_var r key = (case r of Inl e \<Rightarrow> None | Inr s \<Rightarrow> map_of s key)"

section \<open>The worker runtime\<close>

text \<open>
  What the worker process does to the outside is kept as a trace of events: the
  messages it sends to the controller (\<^verbatim>\<open>disco.events\<close>), and the calls of
  \<^verbatim>\<open>task.send()\<close>, \<^verbatim>\<open>task.save()\<close> and \<^verbatim>\<open>task.put(name, data)\<close>.
  A task operation is recorded when it is called, whether or not it then raises.
  Sending the announcement is the first use of the channel and may raise, in which
  case the announcement is not in the trace; every other message is appended to the
  trace when it is sent.
\<close>

datatype message =
    AnnouncePID string
  | Status string
  | DataUnavailable string
  | TaskFailed string
  | WorkerDone

datatype event =
    Sent message
  | TaskSend
  | TaskSave
  | TaskPut string string

record task =
  task_mode :: string
  task_uid :: string

record jobpack =
  jobdata :: string

text \<open>
  Everything the runtime calls outside this module is a field of \<^verbatim>\<open>world\<close>: the
  wrapping of the standard input (\<^verbatim>\<open>NonBlockingInput(sys.stdin, timeout=600)\<close>)
  and of the standard output (\<^verbatim>\<open>MessageWriter()\<close>), the sending of the
  announcement, the
  process id, the two requests to the controller, the loading of the job's
  \<^verbatim>\<open>__main__\<close> module and \<^verbatim>\<open>cPickle.loads\<close> (told whether that module was
  loaded), \<^verbatim>\<open>set_mem_limit\<close>, the call of a user function by name, the task's path,
  reading the profile back, the three task operations, and the formatting of the
  traceback. An \<^verbatim>\<open>exn option\<close> is the exception raised, if any. Of a user
  function only that outcome is kept: what it writes to the controller itself is
  outside this module.
\<close>

record world =
  wrap_stdin :: "exn option"
  wrap_stdout :: "exn option"
  send_announce :: "exn option"
  getpid :: string
  jobpack_request :: "exn + jobpack"
  load_disco_main :: "exn option"
  pickle_loads :: "bool \<Rightarrow> string \<Rightarrow> exn + (worker \<times> job \<times> pydict)"
  task_request :: "exn + task"
  set_mem_limit :: "pyval \<Rightarrow> exn option"
  call :: "string \<Rightarrow> task \<Rightarrow> job \<Rightarrow> pydict \<Rightarrow> exn option"
  task_path :: "task \<Rightarrow> string \<Rightarrow> string"
  read_file :: "string \<Rightarrow> exn + string"
  task_put :: "string \<Rightarrow> string \<Rightarrow> exn option"
  task_send :: "exn option"
  task_save :: "exn option"
  format_exc :: "exn \<Rightarrow> string"
  force_utf8 :: "string \<Rightarrow> string"

text \<open>
  \<^verbatim>\<open>Worker.run\<close>: \<^verbatim>\<open>self[task.mode]\<close> raises \<^verbatim>\<open>KeyError\<close> when the worker
  has no such entry, and calling an entry that is not a function raises
  \<^verbatim>\<open>TypeError\<close>.
\<close>

definition run :: "world \<Rightarrow> worker \<Rightarrow> task \<Rightarrow> job \<Rightarrow> pydict \<Rightarrow> exn option" where
  "run w self t j jobargs =
     (case worker_items self (task_mode t) of
        None \<Rightarrow> Some KeyError
      | Some (PFun f) \<Rightarrow> call w f t j jobargs
      | Some v \<Rightarrow> Some TypeError)"

text \<open>
  \<^verbatim>\<open>Worker.end\<close>. The condition reads the worker's own items \<^verbatim>\<open>self['save']\<close>
  and, only when that is true and the mode is \<^verbatim>\<open>'map'\<close>, \<^verbatim>\<open>self['reduce']\<close>.
\<close>

definition send_results :: "world \<Rightarrow> event list \<times> exn option" where
  "send_results w =
     (case task_send w of
        Some e \<Rightarrow> ([TaskSend], Some e)
      | None \<Rightarrow> ([TaskSend, Sent (Status ''Results sent to master'')], None))"

definition save_results :: "world \<Rightarrow> event list \<times> exn option" where
  "save_results w =
     (case task_save w of
        Some e \<Rightarrow> ([TaskSave], Some e)
      | None \<Rightarrow> ([TaskSave, Sent (Status ''Results saved to DDFS'')], None))"

definition end_task ::
  "world \<Rightarrow> worker \<Rightarrow> task \<Rightarrow> job \<Rightarrow> pydict \<Rightarrow> event list \<times> exn option" where
  "end_task w self t j jobargs =
     (case worker_items self ''save'' of
        None \<Rightarrow> ([], Some KeyError)
      | Some sv \<Rightarrow>
          if \<not> truthy sv then send_results w
          else if task_mode t = ''map'' then
            (case worker_items self ''reduce'' of
               None \<Rightarrow> ([], Some KeyError)
             | Some r \<Rightarrow> if truthy r then send_results w else save_results w)
          else save_results w)"

text \<open>
  The profiled branch of \<^verbatim>\<open>Worker.start\<close>: \<^verbatim>\<open>cProfile.runctx\<close> runs
  \<^verbatim>\<open>self.run\<close>, passes \<^verbatim>\<open>SystemExit\<close> over and lets every other exception
  through; then the profile is read back and put on the task.
\<close>

definition profiled_run ::
  "world \<Rightarrow> worker \<Rightarrow> task \<Rightarrow> job \<Rightarrow> pydict \<Rightarrow> event list \<times> exn option" where
  "profiled_run w self t j jobargs =
     (let name = ''profile-'' @ task_uid t;
          path = task_path w t name;
          r = run w self t j jobargs
      in case (if r = Some SystemExit then None else r) of
           Some e \<Rightarrow> ([], Some e)
         | None \<Rightarrow>
             (case read_file w path of
                Inl e \<Rightarrow> ([], Some e)
              | Inr data \<Rightarrow> ([TaskPut name data], task_put w name data)))"

definition start ::
  "world \<Rightarrow> worker \<Rightarrow> task \<Rightarrow> job \<Rightarrow> pydict \<Rightarrow> event list \<times> exn option" where
  "start w self t j jobargs =
     (case map_of (job_settings j) ''DISCO_WORKER_MAX_MEM'' of
        None \<Rightarrow> ([], Some KeyError)
      | Some mem \<Rightarrow>
          (case set_mem_limit w mem of
             Some e \<Rightarrow> ([], Some e)
           | None \<Rightarrow>
               (case call_getitem self ''profile'' j jobargs of
                  Inl e \<Rightarrow> ([], Some e)
                | Inr profile \<Rightarrow>
                    (case (if truthy profile
                           then profiled_run w self t j jobargs
                           else ([], run w self t j jobargs)) of
                       (evs, Some e) \<Rightarrow> (evs, Some e)
                     | (evs, None) \<Rightarrow>
                         (case end_task w self t j jobargs of
                            (evs', r) \<Rightarrow> (evs @ evs', r))))))"



section \<open>The process entry point\<close>







fun is_output_op :: "event \<Rightarrow> bool" where
  "is_output_op TaskSend = True"
| "is_output_op TaskSave = True"
| "is_output_op ev = False"

definition output_ops :: "event list \<Rightarrow> event list" where
  "output_ops evs = filter is_output_op evs"

section \<open>Concrete inputs\<close>

text \<open>
  A job, helpers of \<^verbatim>\<open>disco.util\<close> and a world to evaluate the definitions on.
  The helper \<^verbatim>\<open>inputlist\<close> returns the items of the list it is given,
  \<^verbatim>\<open>ispartitioned\<close> holds of a non-empty list of \<^verbatim>\<open>dir://\<close> addresses, and
  four result directories have an index: two with two entries each, one with no
  entry and one whose only id is \<^verbatim>\<open>-3\<close>.
\<close>

definition job_ex :: job where
  "job_ex =
     \<lparr>job_name = PStr ''wordcount'',
      job_settings = [(''DISCO_JOB_OWNER'', PStr ''alice''),
                      (''DISCO_WORKER_MAX_MEM'', PInt 1024),
                      (''LD_LIBRARY_PATH'', PStr ''/opt/lib''),
                      (''PYTHONPATH'', PStr ''/home/alice/py'')],
      job_attrs = Map.empty\<rparr>"

fun is_dir :: "pyval \<Rightarrow> bool" where
  "is_dir (PStr s) = prefix ''dir://'' s"
| "is_dir v = False"

fun items_of :: "pyval \<Rightarrow> exn + pyval list" where
  "items_of (PList xs) = Inr xs"
| "items_of (PTuple xs) = Inr xs"
| "items_of v = Inl TypeError"

definition index_ex :: "pyval \<Rightarrow> exn + (pyval \<times> pyval) list" where
  "index_ex dir =
     (if dir = PStr ''dir://n1/job/'' then
        Inr [(PStr ''0'', PStr ''disco://n1/job/part-0''),
             (PStr ''1'', PStr ''disco://n1/job/part-1'')]
      else if dir = PStr ''dir://n2/job/'' then
        Inr [(PStr ''2'', PStr ''disco://n2/job/part-2''),
             (PStr ''0'', PStr ''disco://n2/job/part-0'')]
      else if dir = PStr ''dir://n3/job/'' then Inr []
      else if dir = PStr ''dir://n4/job/'' then
        Inr [(PStr ''-3'', PStr ''disco://n4/job/part'')]
      else Inl IOError)"

definition util_ex :: util where
  "util_ex =
     \<lparr>inputlist = (\<lambda>inputs partition settings. items_of inputs),
      ispartitioned = (\<lambda>inp. Inr (PBool (inp \<noteq> [] \<and> list_all is_dir inp))),
      read_index = index_ex\<rparr>"

definition task_ex :: "string \<Rightarrow> task" where
  "task_ex m = \<lparr>task_mode = m, task_uid = ''7''\<rparr>"

text \<open>
  A world in which the channel is set up, the controller hands out a package and a
  task of the given mode,
  the job has no main module of its own, the package unpickles to a worker with a map
  function, the example job and no call-time arguments, and every outside call
  succeeds except the user function, whose outcome is the second argument.
\<close>

definition world_ex :: "string \<Rightarrow> exn option \<Rightarrow> world" where
  "world_ex m outcome =
     \<lparr>wrap_stdin = None,
      wrap_stdout = None,
      send_announce = None,
      getpid = ''4242'',
      jobpack_request = Inr \<lparr>jobdata = ''payload''\<rparr>,
      load_disco_main = Some ImportError,
      pickle_loads = (\<lambda>loaded data.
         Inr (Worker_init ''disco.worker'' [''map'' \<mapsto> PFun ''fun_map''], job_ex, Map.empty)),
      task_request = Inr (task_ex m),
      set_mem_limit = (\<lambda>limit. None),
      call = (\<lambda>f t j jobargs. outcome),
      task_path = (\<lambda>t name. ''/tmp/'' @ name),
      read_file = (\<lambda>path. Inr ''stats''),
      task_put = (\<lambda>name data. None),
      task_send = None,
      task_save = None,
      format_exc = (\<lambda>e. ''Traceback (most recent call last)''),
      force_utf8 = (\<lambda>s. s)\<rparr>"

section \<open>Evaluating the concrete inputs\<close>

lemmas ex_simps =
  jobdict_def nr_reduces_choice_def call_getitem_def keyword_clash_def and_then_def
  index_readable_def getitem_def job_getattr_def job_ex_def
  Worker_init_def defaults_def dict_get_def util_ex_def py_or_def bin_def path_join_def
  index_ex_def strip_def is_space_def unsigned_of_str_def is_digit_def digits_value_def
  enumerated_ids_def entry_ids_def is_partitioned_def nr_reduces_spec_def

section \<open>Properties of the layered lookup\<close>

text \<open>
  Claim C6. For every key, job and call-time arguments, \<^verbatim>\<open>getitem\<close> returns the
  call-time argument when the key is among the call-time arguments; otherwise the
  job's attribute of that name when the job exposes one; otherwise the worker's own
  stored value, which for a constructed worker is the constructor's keyword argument
  when given and the default otherwise. The value comes from one layer alone.
\<close>

theorem getitem_precedence:
  "(jobargs key = Some v \<longrightarrow> getitem self key j jobargs = v) \<and>
   (jobargs key = None \<and> job_getattr j key = Some a \<longrightarrow> getitem self key j jobargs = a) \<and>
   (jobargs key = None \<and> job_getattr j key = None \<longrightarrow>
      getitem self key j jobargs = dict_get (worker_items self) key) \<and>
   (jobargs key = None \<and> job_getattr j key = None \<and> kwargs key = Some c \<longrightarrow>
      getitem (Worker_init m kwargs) key j jobargs = c) \<and>
   (jobargs key = None \<and> job_getattr j key = None \<and> kwargs key = None \<longrightarrow>
      getitem (Worker_init m kwargs) key j jobargs = dict_get defaults key)"
  by (simp add: getitem_def Worker_init_def dict_get_def map_add_def)

text \<open>
  The lookup on a worker, a job and call-time arguments that each carry their own
  value: a key in all three layers, a key in the job and the worker, a key of the
  constructor, and a key that only has its default.
\<close>

theorem getitem_precedence_witness:
  "getitem (Worker_init ''disco.worker'' [''partitions'' \<mapsto> PInt 2, ''save'' \<mapsto> PBool True])
     ''partitions'' (job_ex\<lparr>job_attrs := [''partitions'' \<mapsto> PInt 4]\<rparr>)
     [''partitions'' \<mapsto> PInt 8] = PInt 8 \<and>
   getitem (Worker_init ''disco.worker'' [''partitions'' \<mapsto> PInt 2, ''save'' \<mapsto> PBool True])
     ''partitions'' (job_ex\<lparr>job_attrs := [''partitions'' \<mapsto> PInt 4]\<rparr>)
     [''profile'' \<mapsto> PBool True] = PInt 4 \<and>
   getitem (Worker_init ''disco.worker'' [''partitions'' \<mapsto> PInt 2, ''save'' \<mapsto> PBool True])
     ''save'' (job_ex\<lparr>job_attrs := [''partitions'' \<mapsto> PInt 4]\<rparr>)
     [''profile'' \<mapsto> PBool True] = PBool True \<and>
   getitem (Worker_init ''disco.worker'' [''partitions'' \<mapsto> PInt 2, ''save'' \<mapsto> PBool True])
     ''scheduler'' (job_ex\<lparr>job_attrs := [''partitions'' \<mapsto> PInt 4]\<rparr>)
     [''profile'' \<mapsto> PBool True] = PDict []"
proof -
  let ?kw = "[''partitions'' \<mapsto> PInt 2, ''save'' \<mapsto> PBool True]"
  let ?j = "job_ex\<lparr>job_attrs := [''partitions'' \<mapsto> PInt 4]\<rparr>"
  let ?a = "[''profile'' \<mapsto> PBool True]"
  let ?w = "Worker_init ''disco.worker'' ?kw"
  show ?thesis
    using
      getitem_precedence [where self = ?w and j = ?j and key = "''partitions''"
        and jobargs = "[''partitions'' \<mapsto> PInt 8]" and v = "PInt 8"]
      getitem_precedence [where self = ?w and j = ?j and key = "''partitions''"
        and jobargs = ?a and a = "PInt 4"]
      getitem_precedence [where self = ?w and j = ?j and key = "''save''" and jobargs = ?a
        and kwargs = ?kw and m = "''disco.worker''" and c = "PBool True"]
      getitem_precedence [where self = ?w and j = ?j and key = "''scheduler''" and jobargs = ?a
        and kwargs = ?kw and m = "''disco.worker''"]
    by (simp add: job_getattr_def job_ex_def defaults_def dict_get_def Worker_init_def)
qed

text \<open>
  Claim C10. A key that is in none of the three layers (not among the call-time
  arguments, not an attribute of the job, not stored in the worker) resolves to
  \<^verbatim>\<open>None\<close>; nothing is raised.
\<close>

theorem getitem_absent_key:
  "jobargs key = None \<Longrightarrow> job_getattr j key = None \<Longrightarrow> worker_items self key = None \<Longrightarrow>
   getitem self key j jobargs = PNone"
  by (simp add: getitem_def dict_get_def)

text \<open>A key that no layer knows, looked up on a worker built from the defaults.\<close>

theorem getitem_absent_key_witness:
  "getitem (Worker_init ''disco.worker'' Map.empty) ''no_such_key'' job_ex
     [''profile'' \<mapsto> PBool True] = PNone"
proof -
  have a: "[''profile'' \<mapsto> PBool True] ''no_such_key'' = None" by simp
  have b: "job_getattr job_ex ''no_such_key'' = None"
    by (simp add: job_getattr_def job_ex_def)
  have c: "worker_items (Worker_init ''disco.worker'' Map.empty) ''no_such_key'' = None"
    by (simp add: Worker_init_def defaults_def)
  show ?thesis
    using a b c
      getitem_absent_key [where jobargs = "[''profile'' \<mapsto> PBool True]"
        and key = "''no_such_key''" and j = job_ex
        and self = "Worker_init ''disco.worker'' Map.empty"]
    by blast
qed

section \<open>Properties of the job descriptor\<close>

text \<open>
  When the generator runs to its end, its values are the enumerated ids; it runs to
  its end when every index can be read and every id converts; and \<^verbatim>\<open>max\<close>
  returns the maximum of a list that is not empty.
\<close>

lemma ints_of_ids:
  "ints_of es = Inr ns \<Longrightarrow>
   concat (map (\<lambda>(i, url). case py_int i of Inl e \<Rightarrow> [] | Inr n \<Rightarrow> [n]) es) = ns"
  by (induction es arbitrary: ns rule: ints_of.induct) (auto split: sum.splits)

lemma partition_ids_enumerated:
  "partition_ids u inp = Inr ns \<Longrightarrow> enumerated_ids u inp = ns"
proof (induction inp arbitrary: ns)
  case Nil
  then show ?case by (simp add: enumerated_ids_def)
next
  case (Cons dir dirs)
  then show ?case
    by (auto simp: enumerated_ids_def entry_ids_def ints_of_ids split: sum.splits)
qed

lemma ints_of_readable:
  "list_all (\<lambda>(i, url). case py_int i of Inl e \<Rightarrow> False | Inr n \<Rightarrow> True) es \<Longrightarrow>
   \<exists>ns. ints_of es = Inr ns"
  by (induction es rule: ints_of.induct) (auto split: sum.splits)

lemma index_readable_partition_ids:
  "index_readable u inp \<Longrightarrow> partition_ids u inp = Inr (enumerated_ids u inp)"
proof (induction inp)
  case Nil
  then show ?case by (simp add: enumerated_ids_def)
next
  case (Cons dir dirs)
  from Cons.prems have rest: "index_readable u dirs"
    by (simp add: index_readable_def)
  from Cons.prems obtain es where es: "read_index u dir = Inr es"
    and ok: "list_all (\<lambda>(i, url). case py_int i of Inl e \<Rightarrow> False | Inr n \<Rightarrow> True) es"
    by (auto simp: index_readable_def split: sum.splits)
  from ints_of_readable [OF ok] obtain ns where ns: "ints_of es = Inr ns" by blast
  from Cons.IH [OF rest] es ns have "\<exists>ms. partition_ids u (dir # dirs) = Inr ms" by simp
  then obtain ms where "partition_ids u (dir # dirs) = Inr ms" by blast
  with partition_ids_enumerated [OF this] show ?case by simp
qed

lemma ints_of_returns_readable:
  "ints_of es = Inr ns \<Longrightarrow>
   list_all (\<lambda>(i, url). case py_int i of Inl e \<Rightarrow> False | Inr n \<Rightarrow> True) es"
  by (induction es arbitrary: ns rule: ints_of.induct) (auto split: sum.splits)

lemma partition_ids_readable:
  "partition_ids u inp = Inr ns \<Longrightarrow> index_readable u inp"
proof (induction inp arbitrary: ns)
  case Nil
  then show ?case by (simp add: index_readable_def)
next
  case (Cons dir dirs)
  then show ?case
    by (auto simp: index_readable_def ints_of_returns_readable split: sum.splits)
qed

lemma py_max_Max:
  assumes "py_max ns = Inr m"
  shows "ns \<noteq> [] \<and> m = Max (set ns)"
proof (cases ns)
  case Nil
  with assms show ?thesis by simp
next
  case (Cons a as)
  with assms show ?thesis using Max.set_eq_fold [of a as] by auto
qed

lemma py_max_returns: "ns \<noteq> [] \<Longrightarrow> \<exists>m. py_max ns = Inr m"
  by (cases ns) simp_all

text \<open>
  A call-time argument named \<^verbatim>\<open>self\<close>, \<^verbatim>\<open>key\<close> or \<^verbatim>\<open>job\<close> makes the first
  call of \<^verbatim>\<open>getitem\<close> raise \<^verbatim>\<open>TypeError\<close>; without one, every call of
  \<^verbatim>\<open>getitem\<close> returns.
\<close>

lemma jobdict_clash:
  "keyword_clash [''self'', ''key'', ''job''] jobargs \<Longrightarrow>
   jobdict u self j jobargs = Inl TypeError"
  by (simp add: jobdict_def call_getitem_def and_then_def)

lemma nr_reduces_choice_eq:
  assumes "\<not> keyword_clash [''self'', ''key'', ''job''] jobargs"
  shows "nr_reduces_choice u self j jobargs has_map inp =
     (if has_map then Inr (py_or (getitem self ''partitions'' j jobargs) (PInt 1))
      else
        (case ispartitioned u inp of
           Inl e \<Rightarrow> Inl e
         | Inr p \<Rightarrow>
             if truthy p then
               (case partition_ids u inp of
                  Inl e \<Rightarrow> Inl e
                | Inr ns \<Rightarrow> map_sum id (\<lambda>m. PInt (1 + m)) (py_max ns))
             else Inr (PInt 1)))"
  using assms
  by (auto simp: nr_reduces_choice_def call_getitem_def and_then_def map_sum_def
      split: sum.splits)

lemma jobdict_eq:
  assumes "\<not> keyword_clash [''self'', ''key'', ''job''] jobargs"
  shows "jobdict u self j jobargs =
     (case inputlist u (py_or (getitem self ''input'' j jobargs) (PTuple []))
             (if truthy (getitem self ''map'' j jobargs) then PNone else PBool False)
             (job_settings j) of
        Inl e \<Rightarrow> Inl e
      | Inr inp \<Rightarrow>
          (case nr_reduces_choice u self j jobargs (truthy (getitem self ''map'' j jobargs)) inp of
             Inl e \<Rightarrow> Inl e
           | Inr nr0 \<Rightarrow>
               (case map_of (job_settings j) ''DISCO_JOB_OWNER'' of
                  None \<Rightarrow> Inl KeyError
                | Some owner \<Rightarrow>
                    Inr \<lparr>jd_input = inp,
                         jd_worker = bin self,
                         jd_map = truthy (getitem self ''map'' j jobargs),
                         jd_reduce = truthy (getitem self ''reduce'' j jobargs),
                         jd_profile = getitem self ''profile'' j jobargs,
                         jd_nr_reduces =
                           (if truthy (getitem self ''merge_partitions'' j jobargs)
                            then PInt 1 else nr0),
                         jd_prefix = job_name j,
                         jd_scheduler = getitem self ''scheduler'' j jobargs,
                         jd_owner = owner\<rparr>)))"
  using assms
  by (simp add: jobdict_def call_getitem_def and_then_def split: sum.splits)

text \<open>
  The three-way choice gives what the rule of the specification gives before the
  override, and it returns when a map is present, or the helper answers and, for a
  partitioned input list, every index is readable and at least one id is enumerated.
\<close>

lemma nr_reduces_choice_spec:
  assumes "\<not> keyword_clash [''self'', ''key'', ''job''] jobargs"
    and "nr_reduces_choice u self j jobargs has_map inp = Inr nr0"
  shows "nr0 = nr_reduces_spec has_map (getitem self ''partitions'' j jobargs)
                 (is_partitioned u inp) (Max (set (enumerated_ids u inp))) False"
  using assms(2) unfolding nr_reduces_choice_eq [OF assms(1)]
  by (auto simp: nr_reduces_spec_def py_or_def is_partitioned_def map_sum_def
      split: if_splits sum.splits dest!: partition_ids_enumerated py_max_Max)

lemma nr_reduces_choice_returns:
  assumes "\<not> keyword_clash [''self'', ''key'', ''job''] jobargs"
    and "has_map \<or>
         (\<exists>p. ispartitioned u inp = Inr p) \<and>
         (is_partitioned u inp \<longrightarrow> index_readable u inp \<and> enumerated_ids u inp \<noteq> [])"
  shows "\<exists>nr0. nr_reduces_choice u self j jobargs has_map inp = Inr nr0"
proof (cases has_map)
  case True
  then show ?thesis by (simp add: nr_reduces_choice_eq [OF assms(1)])
next
  case False
  with assms(2) obtain p where p: "ispartitioned u inp = Inr p"
    and idx: "is_partitioned u inp \<longrightarrow> index_readable u inp \<and> enumerated_ids u inp \<noteq> []"
    by blast
  show ?thesis
  proof (cases "truthy p")
    case np: False
    with False p show ?thesis by (simp add: nr_reduces_choice_eq [OF assms(1)])
  next
    case True
    with p idx have "index_readable u inp" "enumerated_ids u inp \<noteq> []"
      by (simp_all add: is_partitioned_def)
    then obtain m where "partition_ids u inp = Inr (enumerated_ids u inp)"
      "py_max (enumerated_ids u inp) = Inr m"
      using index_readable_partition_ids py_max_returns by blast
    with False True p show ?thesis by (simp add: nr_reduces_choice_eq [OF assms(1)])
  qed
qed


text \<open>
  \<^verbatim>\<open>jobdict\<close> returns a descriptor when no call-time argument clashes with a
  parameter of \<^verbatim>\<open>getitem\<close>, the helpers do not raise, the indexes of a
  partitioned input list are readable and enumerate at least one id, and the
  settings name the owner.
\<close>

lemma jobdict_returns:
  assumes nc: "\<not> keyword_clash [''self'', ''key'', ''job''] jobargs"
    and inp: "inputlist u (py_or (getitem self ''input'' j jobargs) (PTuple []))
             (if truthy (getitem self ''map'' j jobargs) then PNone else PBool False)
             (job_settings j) = Inr inp"
    and owner: "map_of (job_settings j) ''DISCO_JOB_OWNER'' = Some owner"
    and idx: "truthy (getitem self ''map'' j jobargs) \<or>
         (\<exists>p. ispartitioned u inp = Inr p) \<and>
         (is_partitioned u inp \<longrightarrow> index_readable u inp \<and> enumerated_ids u inp \<noteq> [])"
  shows "\<exists>d. jobdict u self j jobargs = Inr d \<and> jd_input d = inp"
proof -
  from nr_reduces_choice_returns [OF nc idx]
  obtain nr0 where
    "nr_reduces_choice u self j jobargs (truthy (getitem self ''map'' j jobargs)) inp = Inr nr0"
    by blast
  with inp owner show ?thesis
    by (simp add: jobdict_eq [OF nc])
qed

text \<open>
  These conditions are also necessary: a descriptor is returned only when each of
  them holds.
\<close>

lemma nr_reduces_choice_returns_only_if:
  assumes nc: "\<not> keyword_clash [''self'', ''key'', ''job''] jobargs"
    and r: "nr_reduces_choice u self j jobargs has_map inp = Inr nr0"
  shows "has_map \<or>
         (\<exists>p. ispartitioned u inp = Inr p) \<and>
         (is_partitioned u inp \<longrightarrow> index_readable u inp \<and> enumerated_ids u inp \<noteq> [])"
proof (cases has_map)
  case True
  then show ?thesis by simp
next
  case False
  with r obtain p where p: "ispartitioned u inp = Inr p"
    unfolding nr_reduces_choice_eq [OF nc] by (auto split: sum.splits)
  show ?thesis
  proof (cases "truthy p")
    case np: False
    with p show ?thesis by (simp add: is_partitioned_def)
  next
    case True
    with False p r obtain ns m where ns: "partition_ids u inp = Inr ns"
      and m: "py_max ns = Inr m"
      unfolding nr_reduces_choice_eq [OF nc]
      by (auto simp: map_sum_def split: sum.splits)
    from partition_ids_readable [OF ns] partition_ids_enumerated [OF ns] py_max_Max [OF m] p
    show ?thesis by simp
  qed
qed

lemma jobdict_returns_only_if:
  assumes d: "jobdict u self j jobargs = Inr d"
  shows "\<not> keyword_clash [''self'', ''key'', ''job''] jobargs \<and>
    inputlist u (py_or (getitem self ''input'' j jobargs) (PTuple []))
      (if truthy (getitem self ''map'' j jobargs) then PNone else PBool False)
      (job_settings j) = Inr (jd_input d) \<and>
    map_of (job_settings j) ''DISCO_JOB_OWNER'' = Some (jd_owner d) \<and>
    (truthy (getitem self ''map'' j jobargs) \<or>
     (\<exists>p. ispartitioned u (jd_input d) = Inr p) \<and>
     (is_partitioned u (jd_input d) \<longrightarrow>
        index_readable u (jd_input d) \<and> enumerated_ids u (jd_input d) \<noteq> []))"
proof -
  from d jobdict_clash [of jobargs u self j]
  have nc: "\<not> keyword_clash [''self'', ''key'', ''job''] jobargs" by auto
  from d obtain nr0 where
    i: "inputlist u (py_or (getitem self ''input'' j jobargs) (PTuple []))
      (if truthy (getitem self ''map'' j jobargs) then PNone else PBool False)
      (job_settings j) = Inr (jd_input d)"
    and c: "nr_reduces_choice u self j jobargs (truthy (getitem self ''map'' j jobargs))
              (jd_input d) = Inr nr0"
    and o: "map_of (job_settings j) ''DISCO_JOB_OWNER'' = Some (jd_owner d)"
    unfolding jobdict_eq [OF nc]
    by (auto split: sum.splits option.splits)
  from nc i o nr_reduces_choice_returns_only_if [OF nc c] show ?thesis by blast
qed

text \<open>
  The \<^verbatim>\<open>nr_reduces\<close> of a returned descriptor is what the rule of the
  specification gives.
\<close>

lemma jobdict_nr_reduces_value:
  assumes d: "jobdict u self j jobargs = Inr d"
  shows "jd_nr_reduces d =
           nr_reduces_spec (truthy (getitem self ''map'' j jobargs))
             (getitem self ''partitions'' j jobargs)
             (is_partitioned u (jd_input d))
             (Max (set (enumerated_ids u (jd_input d))))
             (truthy (getitem self ''merge_partitions'' j jobargs))"
proof -
  from d jobdict_clash [of jobargs u self j]
  have nc: "\<not> keyword_clash [''self'', ''key'', ''job''] jobargs" by auto
  from d show ?thesis
    unfolding jobdict_eq [OF nc]
    apply (simp split: sum.splits option.splits)
    apply (auto dest!: nr_reduces_choice_spec [OF nc] simp: nr_reduces_spec_def Let_def)
    done
qed

text \<open>
  With no map and a partitioned input list whose indexes enumerate no id, \<^verbatim>\<open>max\<close>
  raises \<^verbatim>\<open>ValueError\<close> and so does \<^verbatim>\<open>jobdict\<close>, whatever
  \<^verbatim>\<open>merge_partitions\<close> is: the override comes after the choice.
\<close>

lemma jobdict_empty_index:
  assumes "\<not> keyword_clash [''self'', ''key'', ''job''] jobargs"
    and "inputlist u (py_or (getitem self ''input'' j jobargs) (PTuple []))
             (if truthy (getitem self ''map'' j jobargs) then PNone else PBool False)
             (job_settings j) = Inr inp"
    and "\<not> truthy (getitem self ''map'' j jobargs)"
    and "ispartitioned u inp = Inr p" and "truthy p"
    and "partition_ids u inp = Inr []"
  shows "jobdict u self j jobargs = Inl ValueError"
  using assms(2-)
  by (simp add: jobdict_eq [OF assms(1)] nr_reduces_choice_eq [OF assms(1)])

text \<open>
  Claim C3, as stated, fails where it says that \<^verbatim>\<open>merge_partitions\<close> sets
  \<^verbatim>\<open>nr_reduces\<close> to 1 regardless of the previous result. The override is the last
  step, so the choice before it has to return first: with no map and the input
  \<^verbatim>\<open>dir://n3/job/\<close>, whose index has no entry, \<^verbatim>\<open>max\<close> of the empty
  sequence raises \<^verbatim>\<open>ValueError\<close> although \<^verbatim>\<open>merge_partitions\<close> is true, and
  no \<^verbatim>\<open>nr_reduces\<close> is computed. Nor is one computed for every choice of
  call-time arguments: one named \<^verbatim>\<open>key\<close> makes the call of \<^verbatim>\<open>getitem\<close> raise
  \<^verbatim>\<open>TypeError\<close>.
\<close>

theorem jobdict_nr_reduces_counterexample:
  "truthy (getitem (Worker_init ''disco.worker'' [''merge_partitions'' \<mapsto> PBool True])
      ''merge_partitions'' job_ex [''input'' \<mapsto> PList [PStr ''dir://n3/job/'']]) \<and>
   jobdict util_ex (Worker_init ''disco.worker'' [''merge_partitions'' \<mapsto> PBool True]) job_ex
     [''input'' \<mapsto> PList [PStr ''dir://n3/job/'']] = Inl ValueError \<and>
   jobdict util_ex (Worker_init ''disco.worker'' [''map'' \<mapsto> PFun ''fun_map'']) job_ex
     [''key'' \<mapsto> PInt 1] = Inl TypeError"
  by (simp add: ex_simps)

text \<open>
  Claim C3, amended. For every worker, job, call-time arguments and helpers:
  \<^verbatim>\<open>jobdict\<close> returns a descriptor, whose input list is the resolved one,
  exactly when no call-time argument is named \<^verbatim>\<open>self\<close>, \<^verbatim>\<open>key\<close> or
  \<^verbatim>\<open>job\<close>, \<^verbatim>\<open>inputlist\<close> returns, the settings name the owner, and either
  a map is present, or \<^verbatim>\<open>ispartitioned\<close> returns and, when the list is
  partitioned, every index is readable with integer ids and at least one id is
  enumerated. And whenever \<^verbatim>\<open>jobdict\<close> returns a descriptor, its
  \<^verbatim>\<open>nr_reduces\<close> is: with a map, the resolved \<^verbatim>\<open>partitions\<close> value, or 1
  when that value counts as false; without a map and with a partitioned input list,
  1 plus the greatest partition id that the index entries of the inputs enumerate;
  otherwise 1; and 1 in each of these cases when the resolved
  \<^verbatim>\<open>merge_partitions\<close> value is true.
\<close>

theorem jobdict_nr_reduces:
  "((\<exists>d. jobdict u self j jobargs = Inr d \<and> jd_input d = inp) \<longleftrightarrow>
    \<not> keyword_clash [''self'', ''key'', ''job''] jobargs \<and>
    inputlist u (py_or (getitem self ''input'' j jobargs) (PTuple []))
      (if truthy (getitem self ''map'' j jobargs) then PNone else PBool False)
      (job_settings j) = Inr inp \<and>
    (\<exists>owner. map_of (job_settings j) ''DISCO_JOB_OWNER'' = Some owner) \<and>
    (truthy (getitem self ''map'' j jobargs) \<or>
     (\<exists>p. ispartitioned u inp = Inr p) \<and>
     (is_partitioned u inp \<longrightarrow> index_readable u inp \<and> enumerated_ids u inp \<noteq> []))) \<and>
   (\<forall>d. jobdict u self j jobargs = Inr d \<longrightarrow>
      jd_nr_reduces d =
        nr_reduces_spec (truthy (getitem self ''map'' j jobargs))
          (getitem self ''partitions'' j jobargs)
          (is_partitioned u (jd_input d))
          (Max (set (enumerated_ids u (jd_input d))))
          (truthy (getitem self ''merge_partitions'' j jobargs)))"
proof -
  let ?cond = "\<not> keyword_clash [''self'', ''key'', ''job''] jobargs \<and>
    inputlist u (py_or (getitem self ''input'' j jobargs) (PTuple []))
      (if truthy (getitem self ''map'' j jobargs) then PNone else PBool False)
      (job_settings j) = Inr inp \<and>
    (\<exists>owner. map_of (job_settings j) ''DISCO_JOB_OWNER'' = Some owner) \<and>
    (truthy (getitem self ''map'' j jobargs) \<or>
     (\<exists>p. ispartitioned u inp = Inr p) \<and>
     (is_partitioned u inp \<longrightarrow> index_readable u inp \<and> enumerated_ids u inp \<noteq> []))"
  have only_if: ?cond if "\<exists>d. jobdict u self j jobargs = Inr d \<and> jd_input d = inp"
  proof -
    from that obtain d where "jobdict u self j jobargs = Inr d" and "jd_input d = inp"
      by blast
    with jobdict_returns_only_if [of u self j jobargs d] show ?thesis by blast
  qed
  have "if": "\<exists>d. jobdict u self j jobargs = Inr d \<and> jd_input d = inp" if ?cond
    using that jobdict_returns [of jobargs u self j inp] by blast
  have val: "jd_nr_reduces d =
        nr_reduces_spec (truthy (getitem self ''map'' j jobargs))
          (getitem self ''partitions'' j jobargs)
          (is_partitioned u (jd_input d))
          (Max (set (enumerated_ids u (jd_input d))))
          (truthy (getitem self ''merge_partitions'' j jobargs))"
    if "jobdict u self j jobargs = Inr d" for d
    using that by (rule jobdict_nr_reduces_value)
  from only_if "if" have "(\<exists>d. jobdict u self j jobargs = Inr d \<and> jd_input d = inp) \<longleftrightarrow> ?cond"
    by (rule iffI [rotated, rotated]) 
  with val show ?thesis by blast
qed

text \<open>
  The four cases of the specification on the example job: a map with
  \<^verbatim>\<open>partitions=4\<close> gives 4; no map and two result directories that enumerate
  the partition ids 0, 1, 2 and 0 give 3; no map and an input that is not partitioned
  gives 1; and \<^verbatim>\<open>merge_partitions\<close> with the two result directories gives 1.
\<close>

theorem jobdict_nr_reduces_witness:
  "map_sum id jd_nr_reduces
     (jobdict util_ex
        (Worker_init ''disco.worker'' [''map'' \<mapsto> PFun ''fun_map'', ''partitions'' \<mapsto> PInt 4])
        job_ex Map.empty) = Inr (PInt 4) \<and>
   map_sum id jd_nr_reduces
     (jobdict util_ex (Worker_init ''disco.worker'' Map.empty) job_ex
        [''input'' \<mapsto> PList [PStr ''dir://n1/job/'', PStr ''dir://n2/job/'']]) = Inr (PInt 3) \<and>
   map_sum id jd_nr_reduces
     (jobdict util_ex (Worker_init ''disco.worker'' Map.empty) job_ex
        [''input'' \<mapsto> PList [PStr ''raw://0'']]) = Inr (PInt 1) \<and>
   map_sum id jd_nr_reduces
     (jobdict util_ex (Worker_init ''disco.worker'' [''merge_partitions'' \<mapsto> PBool True]) job_ex
        [''input'' \<mapsto> PList [PStr ''dir://n1/job/'', PStr ''dir://n2/job/'']]) = Inr (PInt 1)"
proof -
  have r: "map_sum id jd_nr_reduces (jobdict util_ex self job_ex jobargs) = Inr v"
    if "\<not> keyword_clash [''self'', ''key'', ''job''] jobargs"
      and "inputlist util_ex (py_or (getitem self ''input'' job_ex jobargs) (PTuple []))
             (if truthy (getitem self ''map'' job_ex jobargs) then PNone else PBool False)
             (job_settings job_ex) = Inr inp"
      and "truthy (getitem self ''map'' job_ex jobargs) \<or>
           (\<exists>p. ispartitioned util_ex inp = Inr p) \<and>
           (is_partitioned util_ex inp \<longrightarrow>
              index_readable util_ex inp \<and> enumerated_ids util_ex inp \<noteq> [])"
      and "nr_reduces_spec (truthy (getitem self ''map'' job_ex jobargs))
             (getitem self ''partitions'' job_ex jobargs) (is_partitioned util_ex inp)
             (Max (set (enumerated_ids util_ex inp)))
             (truthy (getitem self ''merge_partitions'' job_ex jobargs)) = v"
    for self jobargs inp v
  proof -
    have owner: "map_of (job_settings job_ex) ''DISCO_JOB_OWNER'' = Some (PStr ''alice'')"
      by (simp add: job_ex_def)
    from jobdict_nr_reduces [where u = util_ex and self = self and j = job_ex
        and jobargs = jobargs and inp = inp] that(1-3) owner
    obtain d where d: "jobdict util_ex self job_ex jobargs = Inr d" "jd_input d = inp"
      and nr: "jd_nr_reduces d =
        nr_reduces_spec (truthy (getitem self ''map'' job_ex jobargs))
          (getitem self ''partitions'' job_ex jobargs) (is_partitioned util_ex (jd_input d))
          (Max (set (enumerated_ids util_ex (jd_input d))))
          (truthy (getitem self ''merge_partitions'' job_ex jobargs))"
      by blast
    with that(4) show ?thesis by simp
  qed
  let ?dirs = "[PStr ''dir://n1/job/'', PStr ''dir://n2/job/'']"
  have dirs: "is_partitioned util_ex ?dirs" "index_readable util_ex ?dirs"
    "enumerated_ids util_ex ?dirs = [0, 1, 2, 0]"
    "ispartitioned util_ex ?dirs = Inr (PBool True)"
    by (simp_all add: ex_simps)
  have raw: "\<not> is_partitioned util_ex [PStr ''raw://0'']"
    "ispartitioned util_ex [PStr ''raw://0''] = Inr (PBool False)"
    by (simp_all add: ex_simps)
  have w1: "map_sum id jd_nr_reduces
     (jobdict util_ex
        (Worker_init ''disco.worker'' [''map'' \<mapsto> PFun ''fun_map'', ''partitions'' \<mapsto> PInt 4])
        job_ex Map.empty) = Inr (PInt 4)"
    by (rule r [where inp = "[]"])
       (simp_all add: keyword_clash_def getitem_def job_getattr_def job_ex_def Worker_init_def
          defaults_def dict_get_def util_ex_def py_or_def nr_reduces_spec_def)
  have w2: "map_sum id jd_nr_reduces
     (jobdict util_ex (Worker_init ''disco.worker'' Map.empty) job_ex
        [''input'' \<mapsto> PList ?dirs]) = Inr (PInt 3)"
    by (rule r [where inp = ?dirs])
       (simp_all add: dirs keyword_clash_def getitem_def job_getattr_def job_ex_def
          Worker_init_def defaults_def dict_get_def py_or_def nr_reduces_spec_def,
        simp add: util_ex_def)
  have w3: "map_sum id jd_nr_reduces
     (jobdict util_ex (Worker_init ''disco.worker'' Map.empty) job_ex
        [''input'' \<mapsto> PList [PStr ''raw://0'']]) = Inr (PInt 1)"
    by (rule r [where inp = "[PStr ''raw://0'']"])
       (simp_all add: raw keyword_clash_def getitem_def job_getattr_def job_ex_def
          Worker_init_def defaults_def dict_get_def py_or_def nr_reduces_spec_def,
        simp add: util_ex_def)
  have w4: "map_sum id jd_nr_reduces
     (jobdict util_ex (Worker_init ''disco.worker'' [''merge_partitions'' \<mapsto> PBool True]) job_ex
        [''input'' \<mapsto> PList ?dirs]) = Inr (PInt 1)"
    by (rule r [where inp = ?dirs])
       (simp_all add: dirs keyword_clash_def getitem_def job_getattr_def job_ex_def
          Worker_init_def defaults_def dict_get_def py_or_def nr_reduces_spec_def,
        simp add: util_ex_def)
  from w1 w2 w3 w4 show ?thesis by blast
qed





section \<open>Properties of the job environment\<close>

text \<open>
  Joining two strings never raises; a first item that is not a string does. The two
  earlier assignments do not touch \<^verbatim>\<open>PYTHONPATH\<close>.
\<close>

lemma py_join_two: "py_join sep [PStr a, PStr b] = Inr (a @ sep @ b)"
  by (simp add: py_join_def)

lemma py_join_not_str:
  "(\<forall>s. v \<noteq> PStr s) \<Longrightarrow> py_join sep [v, PStr b] = Inl TypeError"
  by (cases v) (simp_all add: py_join_def)

lemma pythonpath_after_two_updates:
  "dict_get_default
     (AList.update ''LD_LIBRARY_PATH'' x (AList.update ''LC_ALL'' y s)) ''PYTHONPATH'' d =
   dict_get_default s ''PYTHONPATH'' d"
  by (simp add: dict_get_default_def update_conv')

text \<open>
  Claim C7, amended. When the prior \<^verbatim>\<open>PYTHONPATH\<close> of the settings (the empty
  string when there is none) is a string \<^verbatim>\<open>p\<close>, \<^verbatim>\<open>jobenvs\<close> returns the
  environment view of the settings table as three assignments leave it:
  \<^verbatim>\<open>LC_ALL\<close> is \<^verbatim>\<open>'C'\<close>, \<^verbatim>\<open>LD_LIBRARY_PATH\<close> is \<^verbatim>\<open>'lib'\<close> whatever
  it was before, \<^verbatim>\<open>PYTHONPATH\<close> is \<^verbatim>\<open>p\<close> followed by \<^verbatim>\<open>':lib'\<close>, and every
  other setting is as before. Only the module search path is appended to.
\<close>

theorem jobenvs_environment:
  assumes "dict_get_default (job_settings j) ''PYTHONPATH'' (PStr []) = PStr p"
  shows "fst (jobenvs env j jobargs) = Inr (env (job_settings (snd (jobenvs env j jobargs)))) \<and>
         map_of (job_settings (snd (jobenvs env j jobargs))) =
           (map_of (job_settings j))
             (''LC_ALL'' \<mapsto> PStr ''C'',
              ''LD_LIBRARY_PATH'' \<mapsto> PStr ''lib'',
              ''PYTHONPATH'' \<mapsto> PStr (p @ '':lib''))"
  using assms
  by (simp add: jobenvs_def Let_def pythonpath_after_two_updates py_join_two update_conv')

text \<open>
  The environment of the example job, whose \<^verbatim>\<open>PYTHONPATH\<close> is
  \<^verbatim>\<open>/home/alice/py\<close>, under the identity as environment view.
\<close>

theorem jobenvs_environment_witness:
  "fst (jobenvs id job_ex Map.empty) = Inr (job_settings (snd (jobenvs id job_ex Map.empty))) \<and>
   map_of (job_settings (snd (jobenvs id job_ex Map.empty))) ''PYTHONPATH'' =
     Some (PStr ''/home/alice/py:lib'') \<and>
   map_of (job_settings (snd (jobenvs id job_ex Map.empty))) ''DISCO_JOB_OWNER'' =
     Some (PStr ''alice'')"
proof -
  have h: "dict_get_default (job_settings job_ex) ''PYTHONPATH'' (PStr []) =
           PStr ''/home/alice/py''"
    by (simp add: dict_get_default_def job_ex_def)
  show ?thesis
    using jobenvs_environment [OF h, of id Map.empty]
    by (simp add: job_ex_def)
qed

text \<open>
  Claim C7, as stated, fails for the library path: \<^verbatim>\<open>jobenvs\<close> assigns
  \<^verbatim>\<open>'lib'\<close> to \<^verbatim>\<open>LD_LIBRARY_PATH\<close>, so a prior value \<^verbatim>\<open>/opt/lib\<close>
  is replaced, not extended.
\<close>

theorem jobenvs_library_path_counterexample:
  "map_of (job_settings job_ex) ''LD_LIBRARY_PATH'' = Some (PStr ''/opt/lib'') \<and>
   env_var (fst (jobenvs id job_ex Map.empty)) ''LD_LIBRARY_PATH'' = Some (PStr ''lib'') \<and>
   \<not> prefix ''/opt/lib'' ''lib''"
  by (simp add: jobenvs_def job_ex_def env_var_def dict_get_default_def py_join_def Let_def)

text \<open>
  A prior \<^verbatim>\<open>PYTHONPATH\<close> that is not a string makes \<^verbatim>\<open>join\<close> raise.
\<close>

lemma jobenvs_type_error:
  assumes "map_of (job_settings j) ''PYTHONPATH'' = Some v" and "\<forall>s. v \<noteq> PStr s"
  shows "fst (jobenvs env j jobargs) = Inl TypeError"
proof -
  from assms(1) have "dict_get_default (job_settings j) ''PYTHONPATH'' (PStr []) = v"
    by (simp add: dict_get_default_def)
  with assms(2) show ?thesis
    by (simp add: jobenvs_def Let_def pythonpath_after_two_updates py_join_not_str)
qed

text \<open>
  Claim C8, as stated, fails: the settings table of the example job has no
  \<^verbatim>\<open>LC_ALL\<close> before the call and has one after it.
\<close>

theorem jobenvs_mutates_counterexample:
  "map_of (job_settings job_ex) ''LC_ALL'' = None \<and>
   map_of (job_settings (snd (jobenvs id job_ex Map.empty))) ''LC_ALL'' = Some (PStr ''C'') \<and>
   job_settings (snd (jobenvs id job_ex Map.empty)) \<noteq> job_settings job_ex"
  by (simp add: jobenvs_def job_ex_def dict_get_default_def py_join_def Let_def)

text \<open>
  Claim C8, amended. \<^verbatim>\<open>jobenvs\<close> assigns into the job's own settings table
  and makes no copy. When the prior \<^verbatim>\<open>PYTHONPATH\<close> of the settings (the empty
  string when there is none) is a string \<^verbatim>\<open>p\<close>, the table after the call is
  the table before it with \<^verbatim>\<open>LC_ALL = 'C'\<close>, \<^verbatim>\<open>LD_LIBRARY_PATH = 'lib'\<close>
  and \<^verbatim>\<open>PYTHONPATH\<close> set to \<^verbatim>\<open>p\<close> followed by \<^verbatim>\<open>':lib'\<close>. When it is
  not a string, the call raises \<^verbatim>\<open>TypeError\<close> and the table after it is the
  table before it with \<^verbatim>\<open>LC_ALL = 'C'\<close> and \<^verbatim>\<open>LD_LIBRARY_PATH = 'lib'\<close>.
  In both cases every other key has the value it had, and the name and the other
  attributes of the job are unchanged.
\<close>

theorem jobenvs_settings_updated:
  "(dict_get_default (job_settings j) ''PYTHONPATH'' (PStr []) = PStr p \<longrightarrow>
      map_of (job_settings (snd (jobenvs env j jobargs))) =
        (map_of (job_settings j))
          (''LC_ALL'' \<mapsto> PStr ''C'',
           ''LD_LIBRARY_PATH'' \<mapsto> PStr ''lib'',
           ''PYTHONPATH'' \<mapsto> PStr (p @ '':lib''))) \<and>
   ((\<forall>s. dict_get_default (job_settings j) ''PYTHONPATH'' (PStr []) \<noteq> PStr s) \<longrightarrow>
      fst (jobenvs env j jobargs) = Inl TypeError \<and>
      map_of (job_settings (snd (jobenvs env j jobargs))) =
        (map_of (job_settings j))
          (''LC_ALL'' \<mapsto> PStr ''C'', ''LD_LIBRARY_PATH'' \<mapsto> PStr ''lib'')) \<and>
   job_name (snd (jobenvs env j jobargs)) = job_name j \<and>
   job_attrs (snd (jobenvs env j jobargs)) = job_attrs j"
proof (intro conjI impI)
  assume "dict_get_default (job_settings j) ''PYTHONPATH'' (PStr []) = PStr p"
  then show "map_of (job_settings (snd (jobenvs env j jobargs))) =
        (map_of (job_settings j))
          (''LC_ALL'' \<mapsto> PStr ''C'',
           ''LD_LIBRARY_PATH'' \<mapsto> PStr ''lib'',
           ''PYTHONPATH'' \<mapsto> PStr (p @ '':lib''))"
    by (simp add: jobenvs_def Let_def pythonpath_after_two_updates py_join_two update_conv')
next
  assume n: "\<forall>s. dict_get_default (job_settings j) ''PYTHONPATH'' (PStr []) \<noteq> PStr s"
  then show "fst (jobenvs env j jobargs) = Inl TypeError"
    by (simp add: jobenvs_def Let_def pythonpath_after_two_updates py_join_not_str)
  from n show "map_of (job_settings (snd (jobenvs env j jobargs))) =
        (map_of (job_settings j))
          (''LC_ALL'' \<mapsto> PStr ''C'', ''LD_LIBRARY_PATH'' \<mapsto> PStr ''lib'')"
    by (simp add: jobenvs_def Let_def pythonpath_after_two_updates py_join_not_str update_conv')
next
  show "job_name (snd (jobenvs env j jobargs)) = job_name j"
    by (simp add: jobenvs_def Let_def split: sum.splits)
  show "job_attrs (snd (jobenvs env j jobargs)) = job_attrs j"
    by (simp add: jobenvs_def Let_def split: sum.splits)
qed

text \<open>
  The settings of the example job after the call: the three assigned items and the
  memory ceiling, which is as before. And the settings of a job whose
  \<^verbatim>\<open>PYTHONPATH\<close> is the number 5: the call raises, two items have been assigned
  and \<^verbatim>\<open>PYTHONPATH\<close> is as before.
\<close>

theorem jobenvs_settings_updated_witness:
  "map_of (job_settings (snd (jobenvs id job_ex Map.empty))) ''LC_ALL'' = Some (PStr ''C'') \<and>
   map_of (job_settings (snd (jobenvs id job_ex Map.empty))) ''LD_LIBRARY_PATH'' =
     Some (PStr ''lib'') \<and>
   map_of (job_settings (snd (jobenvs id job_ex Map.empty))) ''PYTHONPATH'' =
     Some (PStr ''/home/alice/py:lib'') \<and>
   map_of (job_settings (snd (jobenvs id job_ex Map.empty))) ''DISCO_WORKER_MAX_MEM'' =
     Some (PInt 1024) \<and>
   fst (jobenvs id (job_ex\<lparr>job_settings := [(''PYTHONPATH'', PInt 5)]\<rparr>) Map.empty) =
     Inl TypeError \<and>
   map_of (job_settings
       (snd (jobenvs id (job_ex\<lparr>job_settings := [(''PYTHONPATH'', PInt 5)]\<rparr>) Map.empty))) =
     [''PYTHONPATH'' \<mapsto> PInt 5, ''LC_ALL'' \<mapsto> PStr ''C'', ''LD_LIBRARY_PATH'' \<mapsto> PStr ''lib'']"
proof -
  have h: "dict_get_default (job_settings job_ex) ''PYTHONPATH'' (PStr []) =
           PStr ''/home/alice/py''"
    by (simp add: dict_get_default_def job_ex_def)
  let ?j = "job_ex\<lparr>job_settings := [(''PYTHONPATH'', PInt 5)]\<rparr>"
  have n: "\<forall>s. dict_get_default (job_settings ?j) ''PYTHONPATH'' (PStr []) \<noteq> PStr s"
    by (simp add: dict_get_default_def)
  from jobenvs_settings_updated [of job_ex "''/home/alice/py''" id Map.empty] h
  have a: "map_of (job_settings (snd (jobenvs id job_ex Map.empty))) =
        (map_of (job_settings job_ex))
          (''LC_ALL'' \<mapsto> PStr ''C'',
           ''LD_LIBRARY_PATH'' \<mapsto> PStr ''lib'',
           ''PYTHONPATH'' \<mapsto> PStr (''/home/alice/py'' @ '':lib''))"
    by blast
  from jobenvs_settings_updated [of ?j _ id Map.empty] n
  have b: "fst (jobenvs id ?j Map.empty) = Inl TypeError"
    "map_of (job_settings (snd (jobenvs id ?j Map.empty))) =
        (map_of (job_settings ?j))
          (''LC_ALL'' \<mapsto> PStr ''C'', ''LD_LIBRARY_PATH'' \<mapsto> PStr ''lib'')"
    by blast+
  show ?thesis
    by (simp only: a b) (simp add: job_ex_def)
qed

section \<open>Properties of the finalization\<close>

text \<open>
  Either branch of \<^verbatim>\<open>end\<close> calls one output operation, whether or not that
  operation raises; a constructed worker has the items \<^verbatim>\<open>save\<close> and
  \<^verbatim>\<open>reduce\<close>, so the two subscriptions do not raise.
\<close>

lemma output_ops_send_results: "output_ops (fst (send_results w)) = [TaskSend]"
  by (simp add: send_results_def output_ops_def split: option.splits)

lemma output_ops_save_results: "output_ops (fst (save_results w)) = [TaskSave]"
  by (simp add: save_results_def output_ops_def split: option.splits)

lemma constructed_has_save:
  "worker_items (Worker_init m kwargs) ''save'' =
     Some (dict_get (worker_items (Worker_init m kwargs)) ''save'')"
  by (simp add: Worker_init_def defaults_def dict_get_def map_add_def split: option.splits)

lemma constructed_has_reduce:
  "worker_items (Worker_init m kwargs) ''reduce'' =
     Some (dict_get (worker_items (Worker_init m kwargs)) ''reduce'')"
  by (simp add: Worker_init_def defaults_def dict_get_def map_add_def split: option.splits)

text \<open>
  Claim C5, the failing input. The claim decides on the resolved \<^verbatim>\<open>save\<close>
  flag, the value that \<^verbatim>\<open>getitem\<close> gives; \<^verbatim>\<open>end\<close> reads
  \<^verbatim>\<open>self['save']\<close>. With the call-time argument \<^verbatim>\<open>save=True\<close> on a worker
  whose own \<^verbatim>\<open>save\<close> is the default, the resolved flag is true and the mode is
  \<^verbatim>\<open>reduce\<close>, so the output is to be saved; \<^verbatim>\<open>end\<close> sends it.
\<close>

theorem end_task_resolved_save_counterexample:
  "getitem (Worker_init ''disco.worker'' Map.empty) ''save'' job_ex [''save'' \<mapsto> PBool True] =
     PBool True \<and>
   task_mode (task_ex ''reduce'') \<noteq> ''map'' \<and>
   output_ops (fst (end_task (world_ex ''reduce'' None) (Worker_init ''disco.worker'' Map.empty)
      (task_ex ''reduce'') job_ex [''save'' \<mapsto> PBool True])) = [TaskSend]"
  by (simp add: getitem_def end_task_def send_results_def output_ops_def world_ex_def
        Worker_init_def defaults_def task_ex_def)

text \<open>
  The other readers of the worker's options resolve them: \<^verbatim>\<open>start\<close>, which
  calls \<^verbatim>\<open>end\<close> with the same call-time arguments, takes \<^verbatim>\<open>profile\<close> from
  \<^verbatim>\<open>getitem\<close>. With the call-time argument \<^verbatim>\<open>profile=True\<close> on a worker
  whose own \<^verbatim>\<open>profile\<close> is the default, the run is profiled.
\<close>

lemma start_resolved_profile:
  "dict_get (worker_items (Worker_init ''disco.worker'' [''map'' \<mapsto> PFun ''fun_map'']))
     ''profile'' = PBool False \<and>
   fst (start (world_ex ''map'' None) (Worker_init ''disco.worker'' [''map'' \<mapsto> PFun ''fun_map''])
      (task_ex ''map'') job_ex [''profile'' \<mapsto> PBool True]) =
     [TaskPut ''profile-7'' ''stats'', TaskSend, Sent (Status ''Results sent to master'')]"
  by (simp add: start_def call_getitem_def keyword_clash_def getitem_def profiled_run_def
        run_def end_task_def send_results_def world_ex_def job_ex_def Worker_init_def
        defaults_def dict_get_def task_ex_def Let_def)

text \<open>
  Claim C5, what the code does. For every constructed worker, task, job and call-time
  arguments, \<^verbatim>\<open>end\<close> calls \<^verbatim>\<open>task.send()\<close> when the worker's own
  \<^verbatim>\<open>save\<close> item counts as false, or the task mode is \<^verbatim>\<open>map\<close> and the
  worker's own \<^verbatim>\<open>reduce\<close> item counts as true, and calls \<^verbatim>\<open>task.save()\<close>
  otherwise; it calls exactly one of the two, once. The job and the call-time
  arguments play no part, so the decision is the claimed one only when the resolved
  values are the worker's own.
\<close>

theorem end_task_send_or_save:
  "output_ops (fst (end_task w (Worker_init m kwargs) t j jobargs)) =
     (if \<not> truthy (dict_get (worker_items (Worker_init m kwargs)) ''save'') \<or>
         (task_mode t = ''map'' \<and>
          truthy (dict_get (worker_items (Worker_init m kwargs)) ''reduce''))
      then [TaskSend] else [TaskSave])"
proof -
  let ?self = "Worker_init m kwargs"
  have "end_task w ?self t j jobargs =
          (if \<not> truthy (dict_get (worker_items ?self) ''save'') \<or>
              (task_mode t = ''map'' \<and> truthy (dict_get (worker_items ?self) ''reduce''))
           then send_results w else save_results w)"
    unfolding end_task_def
    by (simp only: constructed_has_save constructed_has_reduce option.case) simp
  then show ?thesis
    by (simp add: output_ops_send_results output_ops_save_results)
qed

text \<open>
  The four cases on concrete workers: saving with a reduce task, sending a map task's
  output when a reduce is configured, saving a map task's output when none is, and
  sending when \<^verbatim>\<open>save\<close> is false.
\<close>

theorem end_task_send_or_save_witness:
  "output_ops (fst (end_task (world_ex ''reduce'' None)
      (Worker_init ''disco.worker'' [''save'' \<mapsto> PBool True, ''reduce'' \<mapsto> PFun ''fun_reduce''])
      (task_ex ''reduce'') job_ex Map.empty)) = [TaskSave] \<and>
   output_ops (fst (end_task (world_ex ''map'' None)
      (Worker_init ''disco.worker'' [''save'' \<mapsto> PBool True, ''reduce'' \<mapsto> PFun ''fun_reduce''])
      (task_ex ''map'') job_ex Map.empty)) = [TaskSend] \<and>
   output_ops (fst (end_task (world_ex ''map'' None)
      (Worker_init ''disco.worker'' [''save'' \<mapsto> PBool True])
      (task_ex ''map'') job_ex Map.empty)) = [TaskSave] \<and>
   output_ops (fst (end_task (world_ex ''reduce'' None)
      (Worker_init ''disco.worker'' Map.empty)
      (task_ex ''reduce'') job_ex Map.empty)) = [TaskSend]"
  using
    end_task_send_or_save [of "world_ex ''reduce'' None" "''disco.worker''"
      "[''save'' \<mapsto> PBool True, ''reduce'' \<mapsto> PFun ''fun_reduce'']" "task_ex ''reduce''"
      job_ex Map.empty]
    end_task_send_or_save [of "world_ex ''map'' None" "''disco.worker''"
      "[''save'' \<mapsto> PBool True, ''reduce'' \<mapsto> PFun ''fun_reduce'']" "task_ex ''map''"
      job_ex Map.empty]
    end_task_send_or_save [of "world_ex ''map'' None" "''disco.worker''"
      "[''save'' \<mapsto> PBool True]" "task_ex ''map''" job_ex Map.empty]
    end_task_send_or_save [of "world_ex ''reduce'' None" "''disco.worker''"
      Map.empty "task_ex ''reduce''" job_ex Map.empty]
  by (simp add: Worker_init_def defaults_def dict_get_def task_ex_def)

section \<open>Properties of the process entry point\<close>























end
